theory Spec2Isabelle
  imports Complex_Main
begin

unbundle bit_operations_syntax

section \<open>Values, exceptions and expression nodes\<close>

text \<open>
  A Python \<open>str\<close> is a sequence of Unicode code points, so a string of the program is a
  list of code points; \<open>ustr\<close> turns a literal of the source text into one.
\<close>

type_synonym pystr = "nat list"

definition ustr :: "string \<Rightarrow> pystr" where
  "ustr s = map of_char s"

text \<open>
  The dynamically typed values the evaluators receive. A \<open>dict\<close> is an association list
  in insertion order (the order Python iterates it in), a \<open>set\<close> is the list of its
  elements in iteration order, \<open>VFloat\<close> is a finite float given by its value, and
  \<open>VObj\<close> stands for the opaque objects of the value space (date-times, Timex values).
\<close>

datatype pyval =
    VNone
  | VBool bool
  | VInt int
  | VFloat rat
  | VStr pystr
  | VBytes "nat list"
  | VList "pyval list"
  | VSet "pyval list"
  | VTuple "pyval list"
  | VDict "(pystr \<times> pyval) list"
  | VObj nat

text \<open>
  Exceptions of the interpreter are values of \<open>pyexn\<close>; \<open>Exception\<close> carries the message
  the source passes to \<open>raise Exception(...)\<close>. A function that may raise returns
  \<open>pyexn + 'a\<close>, with \<open>Inl\<close> for the raise.
\<close>

datatype pyexn =
    Exception pystr
  | TypeError
  | IndexError
  | AttributeError
  | UnboundLocalError
  | UnicodeEncodeError

text \<open>
  An expression node: its type string, its children, its declared return type (a bit
  set) and, for a constant node, the value \<open>get_value()\<close> returns. The class itself
  is not among the sources; what the functions below use of its methods
  (\<open>to_string\<close>, \<open>try_evaluate\<close>) is passed to them as a parameter.
\<close>

datatype expr =
  Expr (expr_type: pystr) (children: "expr list") (return_type: int) (get_value: pyval)

text \<open>The result of an evaluation: the pair \<open>(value, error)\<close>, or a raised exception.\<close>

type_synonym pyerror = "pystr option"
type_synonym evalres = "pyexn + (pyval \<times> pyerror)"



section \<open>Type tests and truthiness\<close>

text \<open>\<open>isinstance(v, numbers.Number)\<close>: \<open>bool\<close> is a subclass of \<open>int\<close>.\<close>

fun isinstance_Number :: "pyval \<Rightarrow> bool" where
  "isinstance_Number (VBool b) = True"
| "isinstance_Number (VInt i) = True"
| "isinstance_Number (VFloat x) = True"
| "isinstance_Number v = False"

fun isinstance_bool :: "pyval \<Rightarrow> bool" where
  "isinstance_bool (VBool b) = True"
| "isinstance_bool v = False"

fun isinstance_str :: "pyval \<Rightarrow> bool" where
  "isinstance_str (VStr s) = True"
| "isinstance_str v = False"

fun isinstance_list :: "pyval \<Rightarrow> bool" where
  "isinstance_list (VList xs) = True"
| "isinstance_list v = False"



text \<open>\<open>int(v)\<close> on the values \<open>is_integer\<close> accepts.\<close>

fun py_int :: "pyval \<Rightarrow> int" where
  "py_int (VBool b) = (if b then 1 else 0)"
| "py_int (VInt i) = i"
| "py_int (VFloat x) = \<lfloor>x\<rfloor>"
| "py_int v = 0"

fun is_logic_true :: "pyval \<Rightarrow> bool" where
  "is_logic_true (VBool b) = b"
| "is_logic_true VNone = False"
| "is_logic_true v = True"

section \<open>Dynamic verifiers\<close>

text \<open>
  A verifier gets the value, the child expression and its position, and returns an error
  string or \<open>None\<close>. \<open>to_string\<close> is \<open>expression.to_string()\<close>.
\<close>

type_synonym verifier = "pyval \<Rightarrow> expr \<Rightarrow> nat \<Rightarrow> pyexn + pyerror"


definition verify_number_or_string_or_null :: "(expr \<Rightarrow> pystr) \<Rightarrow> verifier" where
  "verify_number_or_string_or_null to_string value expression number =
     Inr (if value \<noteq> VNone
             \<and> (isinstance_bool value \<or> \<not> isinstance_Number value)
             \<and> \<not> isinstance_str value
          then Some (to_string expression @ ustr '' is neither a number nor string.'')
          else None)"

definition verify_number :: "(expr \<Rightarrow> pystr) \<Rightarrow> verifier" where
  "verify_number to_string value expression pos =
     Inr (if \<not> isinstance_Number value
          then Some (to_string expression @ ustr '' is not a number.'')
          else None)"

text \<open>
  The loop of \<open>verify_numeric_list\<close> over the elements. At the first element that is not
  a number the source builds its message as \<open>elt + " is not a number in " + expression\<close>,
  with the expression object itself as the last operand of \<open>+\<close>: that raises
  \<open>TypeError\<close> whatever the element is.
\<close>

fun verify_numeric_list_elts :: "pyval list \<Rightarrow> pyexn + pyerror" where
  "verify_numeric_list_elts [] = Inr None"
| "verify_numeric_list_elts (elt # rest) =
     (if \<not> isinstance_Number elt then Inl TypeError
      else verify_numeric_list_elts rest)"

fun verify_numeric_list :: "(expr \<Rightarrow> pystr) \<Rightarrow> verifier" where
  "verify_numeric_list to_string (VList elts) expression number =
     verify_numeric_list_elts elts"
| "verify_numeric_list to_string value expression number =
     Inr (Some (to_string expression @ ustr '' is not a list.''))"

section \<open>Indexing\<close>

text \<open>
  \<open>instance + " is not a collection."\<close>: the operator \<open>+\<close> with a \<open>str\<close> on the right
  concatenates when the left operand is a \<open>str\<close> and raises \<open>TypeError\<close> for every other
  value of the value space.
\<close>

fun py_add_str :: "pyval \<Rightarrow> pystr \<Rightarrow> pyexn + pystr" where
  "py_add_str (VStr s) t = Inr (s @ t)"
| "py_add_str v t = Inl TypeError"

text \<open>\<open>str_of\<close> is the interpreter's \<open>str()\<close>.\<close>

fun access_index :: "(pyval \<Rightarrow> pystr) \<Rightarrow> pyval \<Rightarrow> int \<Rightarrow> evalres" where
  "access_index str_of VNone index = Inr (VNone, None)"
| "access_index str_of (VList xs) index =
     (if 0 \<le> index \<and> index < int (length xs)
      then Inr (xs ! nat index, None)
      else Inr (VNone, Some (str_of (VInt index) @ ustr '' is out of range for ''
                               @ str_of (VList xs))))"
| "access_index str_of instance index =
     (case py_add_str instance (ustr '' is not a collection.'') of
        Inl ex \<Rightarrow> Inl ex
      | Inr error \<Rightarrow> Inr (VNone, Some error))"

section \<open>Static validation\<close>

text \<open>
  Modelled from the spec: the flags of \<open>ReturnType\<close> (\<open>return_type.py\<close> is not among the
  sources), a bit set over Boolean=1, Number=2, Object=4, String=8, Array=16.
\<close>

definition ReturnType_Object :: int where
  "ReturnType_Object = 4"

definition ReturnType_Number :: int where
  "ReturnType_Number = 2"

definition ReturnType_String :: int where
  "ReturnType_String = 8"

text \<open>
  The source compares the declared type with the one-element tuples \<open>(1,)\<close>, \<open>(2,)\<close>,
  \<open>(4,)\<close>, \<open>(8,)\<close>; \<open>==\<close> between a flag and a tuple is the comparison of two values of
  different kinds.
\<close>

definition build_type_validator_error ::
  "(expr \<Rightarrow> pystr) \<Rightarrow> int \<Rightarrow> expr \<Rightarrow> expr \<Rightarrow> pystr" where
  "build_type_validator_error to_string rt child_expr e =
     (let names =
        (if VInt rt = VTuple [VInt 1] then ustr ''Boolean''
         else if VInt rt = VTuple [VInt 2] then ustr ''Number''
         else if VInt rt = VTuple [VInt 4] then ustr ''Object''
         else if VInt rt = VTuple [VInt 8] then ustr ''String''
         else ustr ''Array'')
      in if of_char CHR '','' \<notin> set names
         then ustr ''{'' @ to_string child_expr @ ustr ''} is not a {'' @ names
                @ ustr ''} expression in {'' @ to_string e @ ustr ''}.''
         else ustr ''{'' @ to_string child_expr @ ustr ''} in {'' @ to_string e
                @ ustr ''} is not any of [{'' @ names @ ustr ''}].'')"

text \<open>
  The validators return \<open>None\<close> when they accept and the raised exception otherwise.
  \<open>str_of\<close> renders the arity in the message.
\<close>

fun check_children_any_type ::
  "(expr \<Rightarrow> pystr) \<Rightarrow> int \<Rightarrow> expr \<Rightarrow> expr list \<Rightarrow> pyexn option" where
  "check_children_any_type to_string rt e [] = None"
| "check_children_any_type to_string rt e (child # rest) =
     (if (return_type child AND ReturnType_Object = 0) \<and> (rt AND return_type child = 0)
      then Some (Exception (build_type_validator_error to_string rt child e))
      else check_children_any_type to_string rt e rest)"

definition validate_arity_and_any_type ::
  "(expr \<Rightarrow> pystr) \<Rightarrow> (pyval \<Rightarrow> pystr) \<Rightarrow> expr \<Rightarrow> int \<Rightarrow> int \<Rightarrow> int \<Rightarrow> pyexn option" where
  "validate_arity_and_any_type to_string str_of e min_arity max_arity rt =
     (if int (length (children e)) < min_arity
      then Some (Exception (to_string e @ ustr '' should have at least ''
                              @ str_of (VInt min_arity) @ ustr '' children.''))
      else if int (length (children e)) > max_arity
      then Some (Exception (to_string e @ ustr '' can't have more than ''
                              @ str_of (VInt max_arity) @ ustr '' children.''))
      else if rt AND ReturnType_Object = 0
      then check_children_any_type to_string rt e (children e)
      else None)"

text \<open>
  The two loops of \<open>validate_order\<close> pair the declared types with the children by
  position; the loop over the optional types stops where the children end.
\<close>

fun check_order_types ::
  "(expr \<Rightarrow> pystr) \<Rightarrow> expr \<Rightarrow> int list \<Rightarrow> expr list \<Rightarrow> pyexn option" where
  "check_order_types to_string e [] cs = None"
| "check_order_types to_string e (child_type # ts) [] = None"
| "check_order_types to_string e (child_type # ts) (child # cs) =
     (if child_type AND ReturnType_Object = 0
         \<and> return_type child AND ReturnType_Object = 0
         \<and> child_type AND return_type child = 0
      then Some (Exception (build_type_validator_error to_string child_type child e))
      else check_order_types to_string e ts cs)"

definition validate_order ::
  "(expr \<Rightarrow> pystr) \<Rightarrow> (pyval \<Rightarrow> pystr) \<Rightarrow> expr \<Rightarrow> int list \<Rightarrow> int list \<Rightarrow> pyexn option" where
  "validate_order to_string str_of e optional types =
     (if length (children e) < length types
         \<or> length (children e) > length types + length optional
      then (if length optional = 0
            then Some (Exception (ustr ''{'' @ to_string e @ ustr ''} should have {''
                         @ str_of (VInt (int (length types))) @ ustr ''} children.''))
            else Some (Exception (ustr ''{'' @ to_string e
                         @ ustr ''} should have between {''
                         @ str_of (VInt (int (length types))) @ ustr ''} and {''
                         @ str_of (VInt (int (length types + length optional)))
                         @ ustr ''} children.'')))
      else (case check_order_types to_string e types (take (length types) (children e)) of
              Some ex \<Rightarrow> Some ex
            | None \<Rightarrow>
                check_order_types to_string e optional (drop (length types) (children e))))"

section \<open>Child evaluation and the apply combinators\<close>

text \<open>
  \<open>ev\<close> is \<open>child.try_evaluate(state, options)\<close>, with the options (which every function
  below only hands on) inside it. \<open>if error:\<close> tests truthiness: an error is set when it
  is neither \<open>None\<close> nor the empty string.
\<close>

fun truthy :: "pyerror \<Rightarrow> bool" where
  "truthy None = False"
| "truthy (Some s) = (s \<noteq> [])"

fun evaluate_children_loop ::
  "(expr \<Rightarrow> 's \<Rightarrow> evalres) \<Rightarrow> verifier option \<Rightarrow> 's \<Rightarrow> expr list \<Rightarrow> pyval list \<Rightarrow> pyerror \<Rightarrow> nat
     \<Rightarrow> pyexn + (pyval list \<times> pyerror)" where
  "evaluate_children_loop ev verify state [] args error pos = Inr (args, error)"
| "evaluate_children_loop ev verify state (child # rest) args error pos =
     (case ev child state of
        Inl ex \<Rightarrow> Inl ex
      | Inr (value, error1) \<Rightarrow>
          if truthy error1 then Inr (args, error1)
          else (case verify of
                  None \<Rightarrow>
                    evaluate_children_loop ev verify state rest (args @ [value]) error1 (pos + 1)
                | Some vf \<Rightarrow>
                    (case vf value child pos of
                       Inl ex \<Rightarrow> Inl ex
                     | Inr error2 \<Rightarrow>
                         if truthy error2 then Inr (args, error2)
                         else evaluate_children_loop ev verify state rest (args @ [value])
                                error2 (pos + 1))))"

definition evaluate_children ::
  "(expr \<Rightarrow> 's \<Rightarrow> evalres) \<Rightarrow> verifier option \<Rightarrow> expr \<Rightarrow> 's \<Rightarrow> pyexn + (pyval list \<times> pyerror)" where
  "evaluate_children ev verify expression state =
     evaluate_children_loop ev verify state (children expression) [] None 0"

text \<open>
  \<open>apply\<close>: the children are evaluated outside the \<open>try\<close>, the function inside it, and
  \<open>str_exn\<close> is \<open>str(err)\<close> of the exception caught.
\<close>

definition apply_fn ::
  "(pyval list \<Rightarrow> pyexn + pyval) \<Rightarrow> verifier option \<Rightarrow> (expr \<Rightarrow> 's \<Rightarrow> evalres) \<Rightarrow> (pyexn \<Rightarrow> pystr)
     \<Rightarrow> expr \<Rightarrow> 's \<Rightarrow> evalres" where
  "apply_fn function verify ev str_exn expression state =
     (case evaluate_children ev verify expression state of
        Inl ex \<Rightarrow> Inl ex
      | Inr (args, error) \<Rightarrow>
          if error = None
          then (case function args of
                  Inl err \<Rightarrow> Inr (VNone, Some (str_exn err))
                | Inr value \<Rightarrow> Inr (value, None))
          else Inr (VNone, error))"





text \<open>
  \<open>apply_sequence\<close>: the function gets the two-element list \<open>[so_far, arg]\<close> and its
  result is the next \<open>so_far\<close>.
\<close>

fun apply_sequence_loop ::
  "(pyval list \<Rightarrow> pyexn + pyval) \<Rightarrow> pyval \<Rightarrow> pyval list \<Rightarrow> pyexn + pyval" where
  "apply_sequence_loop function so_far [] = Inr so_far"
| "apply_sequence_loop function so_far (arg # rest) =
     (case function [so_far, arg] of
        Inl ex \<Rightarrow> Inl ex
      | Inr value \<Rightarrow> apply_sequence_loop function value rest)"

definition apply_sequence_anonymous ::
  "(pyval list \<Rightarrow> pyexn + pyval) \<Rightarrow> pyval list \<Rightarrow> pyexn + pyval" where
  "apply_sequence_anonymous function args =
     (case args of
        [] \<Rightarrow> Inl IndexError
      | so_far # rest \<Rightarrow> apply_sequence_loop function so_far rest)"

definition apply_sequence ::
  "(pyval list \<Rightarrow> pyexn + pyval) \<Rightarrow> verifier option \<Rightarrow> (expr \<Rightarrow> 's \<Rightarrow> evalres) \<Rightarrow> (pyexn \<Rightarrow> pystr)
     \<Rightarrow> expr \<Rightarrow> 's \<Rightarrow> evalres" where
  "apply_sequence function verify = apply_fn (apply_sequence_anonymous function) verify"

section \<open>Path accumulation\<close>






section \<open>Higher-order forms\<close>

text \<open>
  Modelled from the spec: the memories \<open>foreach\<close> works on (\<open>stacked_memory.py\<close> and
  \<open>simple_object_memory.py\<close> are not among the sources). A stacked memory is an ordered
  list of memories, \<open>append(frame)\<close> pushes on its end and \<open>pop()\<close> removes the frame
  pushed last; a simple object memory wraps one dictionary. \<open>StackedMemory.wrap\<close> is a
  parameter \<open>wrap\<close> of \<open>foreach\<close>, giving the frames of the stack it returns.
\<close>

datatype memory =
    SimpleObjectMemory "(pystr \<times> pyval) list"
  | StackedMemory "memory list"

definition stack_append :: "memory list \<Rightarrow> memory \<Rightarrow> memory list" where
  "stack_append stacked_memory frame = stacked_memory @ [frame]"

definition stack_pop :: "memory list \<Rightarrow> memory list" where
  "stack_pop stacked_memory = butlast stacked_memory"


text \<open>
  The loop over \<open>arr\<close>, returning the result of the call together with the frames of
  the stacked memory as the loop leaves them. The frame is pushed, the body evaluated and
  the frame popped; an exception raised by the body leaves the loop before the pop.
\<close>

fun foreach_loop ::
  "(expr \<Rightarrow> memory \<Rightarrow> evalres) \<Rightarrow> expr \<Rightarrow> pystr \<Rightarrow> pyval list \<Rightarrow> memory list \<Rightarrow> pyval list
     \<Rightarrow> evalres \<times> memory list" where
  "foreach_loop ev expression iterator_name [] stacked_memory result =
     (Inr (VList result, None), stacked_memory)"
| "foreach_loop ev expression iterator_name (item # rest) stacked_memory result =
     (let local = [(iterator_name, item)];
          pushed = stack_append stacked_memory (SimpleObjectMemory local)
      in case children expression of
           c0 # c1 # c2 # cs \<Rightarrow>
             (case ev c2 (StackedMemory pushed) of
                Inl ex \<Rightarrow> (Inl ex, pushed)
              | Inr (v, err) \<Rightarrow>
                  if err \<noteq> None then (Inr (VNone, err), stack_pop pushed)
                  else foreach_loop ev expression iterator_name rest (stack_pop pushed)
                         (result @ [v]))
         | _ \<Rightarrow> (Inl IndexError, pushed))"


section \<open>Equality\<close>

text \<open>
  \<open>is_equal\<close> on the argument list. The tolerance test
  \<open>abs(float(args[0]) - float(args[1])) < 0.00000001\<close> is computed in double-precision
  arithmetic and \<open>operator.eq\<close> is the interpreter's \<open>==\<close>; both are parameters
  (\<open>float_close\<close>, \<open>py_eq\<close>).
\<close>

definition is_equal ::
  "(pyval \<Rightarrow> pyval \<Rightarrow> pyexn + bool) \<Rightarrow> (pyval \<Rightarrow> pyval \<Rightarrow> bool) \<Rightarrow> pyval list \<Rightarrow> pyexn + bool" where
  "is_equal float_close py_eq args =
     (case args of
        [] \<Rightarrow> Inr False
      | a0 # rest \<Rightarrow>
          (case rest of
             [] \<Rightarrow> Inl IndexError
           | a1 # rest' \<Rightarrow>
               if a0 = VNone \<or> a1 = VNone then Inr (a0 = VNone \<and> a1 = VNone)
               else if a0 = VList [] \<and> a1 = VList [] then Inr True
               else if a0 = VDict [] \<and> a1 = VDict [] then Inr True
               else if isinstance_Number a0 \<and> isinstance_Number a1 then
                 (case float_close a0 a1 of
                    Inl ex \<Rightarrow> Inl ex
                  | Inr close \<Rightarrow> if close then Inr True else Inr (py_eq a0 a1))
               else Inr (py_eq a0 a1)))"

section \<open>dataUri\<close>

text \<open>
  \<open>str.encode(encoding="utf-8")\<close>: one to four bytes per code point; a surrogate (and
  anything that is not a code point) cannot be encoded.
\<close>

definition utf8_code_point :: "nat \<Rightarrow> nat list option" where
  "utf8_code_point c =
     (if c < 0x80 then Some [c]
      else if c < 0x800 then Some [0xC0 + c div 64, 0x80 + c mod 64]
      else if c < 0x10000 then
        (if 0xD800 \<le> c \<and> c \<le> 0xDFFF then None
         else Some [0xE0 + c div 4096, 0x80 + (c div 64) mod 64, 0x80 + c mod 64])
      else if c < 0x110000 then
        Some [0xF0 + c div 262144, 0x80 + (c div 4096) mod 64, 0x80 + (c div 64) mod 64,
              0x80 + c mod 64]
      else None)"

fun utf8_encode :: "pystr \<Rightarrow> pyexn + nat list" where
  "utf8_encode [] = Inr []"
| "utf8_encode (c # cs) =
     (case utf8_code_point c of
        None \<Rightarrow> Inl UnicodeEncodeError
      | Some bs \<Rightarrow> (case utf8_encode cs of Inl ex \<Rightarrow> Inl ex | Inr rest \<Rightarrow> Inr (bs @ rest)))"

text \<open>
  \<open>base64.b64encode(...).decode()\<close>: three bytes give four characters of the alphabet,
  a last group of one or two bytes is padded with \<open>=\<close>; the output is ASCII, which
  \<open>decode()\<close> maps to the same code points.
\<close>

definition b64_alphabet :: pystr where
  "b64_alphabet = ustr ''ABCDEFGHIJKLMNOPQRSTUVWXYZabcdefghijklmnopqrstuvwxyz0123456789+/''"

definition b64_char :: "nat \<Rightarrow> nat" where
  "b64_char n = b64_alphabet ! n"

fun b64encode :: "nat list \<Rightarrow> pystr" where
  "b64encode (a # b # c # rest) =
     b64_char (a div 4) # b64_char ((a mod 4) * 16 + b div 16)
       # b64_char ((b mod 16) * 4 + c div 64) # b64_char (c mod 64) # b64encode rest"
| "b64encode [a, b] =
     [b64_char (a div 4), b64_char ((a mod 4) * 16 + b div 16), b64_char ((b mod 16) * 4),
      of_char CHR ''='']"
| "b64encode [a] =
     [b64_char (a div 4), b64_char ((a mod 4) * 16), of_char CHR ''='', of_char CHR ''='']"
| "b64encode [] = []"




section \<open>Notions used in the statements\<close>

text \<open>The type-mismatch message that names \<open>Array\<close> as the expected type.\<close>

definition array_mismatch_message :: "(expr \<Rightarrow> pystr) \<Rightarrow> expr \<Rightarrow> expr \<Rightarrow> pystr" where
  "array_mismatch_message to_string child e =
     ustr ''{'' @ to_string child @ ustr ''} is not a {Array} expression in {''
       @ to_string e @ ustr ''}.''"




text \<open>
  The memory the body of a \<open>foreach\<close> is evaluated in for one item, and the value the
  body has there.
\<close>

definition body_memory :: "memory list \<Rightarrow> pystr \<Rightarrow> pyval \<Rightarrow> memory" where
  "body_memory stacked_memory iterator_name item =
     StackedMemory (stack_append stacked_memory (SimpleObjectMemory [(iterator_name, item)]))"


section \<open>Expressions and functions of the instances\<close>

text \<open>
  A constant node, the evaluation of a constant, \<open>str()\<close> on strings, and the message
  of an exception, for the concrete instances below.
\<close>

definition Constant :: "pyval \<Rightarrow> expr" where
  "Constant v = Expr (ustr ''Constant'') [] 4 v"

definition constant_ev :: "expr \<Rightarrow> 's \<Rightarrow> evalres" where
  "constant_ev e state = Inr (get_value e, None)"


definition exn_text :: "pyexn \<Rightarrow> pystr" where
  "exn_text ex = (case ex of Exception s \<Rightarrow> s | _ \<Rightarrow> ustr ''error'')"

text \<open>Integer addition, and integer division as a function that returns its error.\<close>

definition int_add :: "pyval \<Rightarrow> pyval \<Rightarrow> pyval" where
  "int_add a b = VInt (py_int a + py_int b)"






section \<open>Truthiness\<close>

text \<open>
  C4. \<open>is_logic_true(v)\<close> is false exactly when \<open>v\<close> is the boolean false or null; it is
  true of every other value, among them \<open>0\<close>, the empty string and the empty
  collections.
\<close>

theorem is_logic_true_false_or_null:
  "(\<not> is_logic_true v) = (v = VBool False \<or> v = VNone)
   \<and> is_logic_true (VInt 0) \<and> is_logic_true (VFloat 0) \<and> is_logic_true (VStr [])
   \<and> is_logic_true (VList []) \<and> is_logic_true (VDict [])"
  by (cases v) auto

section \<open>Verification of numbers\<close>

text \<open>
  C5. The claim is that the number verifiers return an error string for a boolean. The
  code tests \<open>isinstance(value, numbers.Number)\<close>, which holds of a boolean:
  \<open>verify_number\<close> and the element check of \<open>verify_numeric_list\<close> return no error
  for one, while \<open>verify_number_or_string_or_null\<close>, which tests for \<open>bool\<close> first,
  rejects it.
\<close>

theorem verify_number_accepts_bool:
  "verify_number to_string (VBool b) e pos = Inr None
   \<and> verify_numeric_list to_string (VList [VBool b]) e pos = Inr None
   \<and> verify_number_or_string_or_null to_string (VBool b) e pos
       = Inr (Some (to_string e @ ustr '' is neither a number nor string.''))"
  by (simp add: verify_number_def verify_number_or_string_or_null_def)

section \<open>Indexing a value\<close>

text \<open>
  What \<open>access_index\<close> returns on null, on a list and on a string.
\<close>

lemma access_index_null: "access_index str_of VNone i = Inr (VNone, None)"
  by simp

lemma access_index_in_range:
  "0 \<le> i \<Longrightarrow> i < int (length xs) \<Longrightarrow> access_index str_of (VList xs) i = Inr (xs ! nat i, None)"
  by simp

lemma access_index_out_of_range:
  "i < 0 \<or> int (length xs) \<le> i \<Longrightarrow>
     access_index str_of (VList xs) i
       = Inr (VNone, Some (str_of (VInt i) @ ustr '' is out of range for '' @ str_of (VList xs)))"
  by auto

lemma access_index_str:
  "access_index str_of (VStr s) i = Inr (VNone, Some (s @ ustr '' is not a collection.''))"
  by simp

text \<open>
  C6. The claim is that \<open>access_index\<close> returns a pair in all cases, with the error
  \<open>"<inst> is not a collection."\<close> for every instance that is neither null nor a list. On
  an instance that is not a string either, such as the integer 5, building the message
  raises \<open>TypeError\<close> and no pair is returned.
\<close>

theorem access_index_int_raises:
  "access_index str_of (VInt 5) 0 = Inl TypeError"
  by simp

section \<open>The static type-mismatch message\<close>

lemma build_type_validator_error_Array:
  "build_type_validator_error to_string rt child e = array_mismatch_message to_string child e"
  unfolding build_type_validator_error_def array_mismatch_message_def Let_def
  by (simp add: ustr_def)

lemma check_children_any_type_Some:
  "check_children_any_type to_string rt e cs = Some ex \<Longrightarrow>
     \<exists>child\<in>set cs. ex = Exception (array_mismatch_message to_string child e)"
  by (induction cs) (auto simp: build_type_validator_error_Array split: if_splits)

lemma check_order_types_Some:
  "check_order_types to_string e ts cs = Some ex \<Longrightarrow>
     \<exists>child\<in>set cs. ex = Exception (array_mismatch_message to_string child e)"
  by (induction to_string e ts cs rule: check_order_types.induct)
     (auto simp: build_type_validator_error_Array split: if_splits)

text \<open>
  C10. Whatever return type was declared and whatever the offending child,
  \<open>build_type_validator_error\<close> names \<open>Array\<close> as the expected type, since the declared
  type never equals one of the tuples it is compared with; and so does every exception
  that \<open>validate_arity_and_any_type\<close> and \<open>validate_order\<close> raise once the number of
  children is in range, for one of the children.
\<close>

theorem type_mismatch_message_names_Array:
  "build_type_validator_error to_string rt child e = array_mismatch_message to_string child e
   \<and> (min_arity \<le> int (length (children e)) \<and> int (length (children e)) \<le> max_arity
        \<and> validate_arity_and_any_type to_string str_of e min_arity max_arity rt = Some ex
      \<longrightarrow> (\<exists>c\<in>set (children e). ex = Exception (array_mismatch_message to_string c e)))
   \<and> (length types \<le> length (children e)
        \<and> length (children e) \<le> length types + length optional
        \<and> validate_order to_string str_of e optional types = Some ex'
      \<longrightarrow> (\<exists>c\<in>set (children e). ex' = Exception (array_mismatch_message to_string c e)))"
proof (intro conjI impI)
  show "build_type_validator_error to_string rt child e
          = array_mismatch_message to_string child e"
    by (rule build_type_validator_error_Array)
next
  assume "min_arity \<le> int (length (children e)) \<and> int (length (children e)) \<le> max_arity
        \<and> validate_arity_and_any_type to_string str_of e min_arity max_arity rt = Some ex"
  then have "check_children_any_type to_string rt e (children e) = Some ex"
    by (auto simp: validate_arity_and_any_type_def split: if_splits)
  then show "\<exists>c\<in>set (children e). ex = Exception (array_mismatch_message to_string c e)"
    by (rule check_children_any_type_Some)
next
  assume "length types \<le> length (children e)
        \<and> length (children e) \<le> length types + length optional
        \<and> validate_order to_string str_of e optional types = Some ex'"
  then have "check_order_types to_string e types (take (length types) (children e)) = Some ex'
     \<or> check_order_types to_string e optional (drop (length types) (children e)) = Some ex'"
    by (auto simp: validate_order_def split: if_splits option.splits)
  then show "\<exists>c\<in>set (children e). ex' = Exception (array_mismatch_message to_string c e)"
    by (meson check_order_types_Some in_set_takeD in_set_dropD)
qed

text \<open>
  A unary number function over a string child, and \<open>formatTicks\<close> (validated by
  \<open>validate_order\<close> with a required number and an optional string) over a string child:
  both messages ask for an \<open>Array\<close>.
\<close>

theorem type_mismatch_message_names_Array_witness:
  "validate_arity_and_any_type expr_type (\<lambda>v. [])
      (Expr (ustr ''floor'') [Expr (ustr ''concat'') [] 8 VNone] 2 VNone) 1 1 ReturnType_Number
     = Some (Exception (ustr ''{concat} is not a {Array} expression in {floor}.''))
   \<and> validate_order expr_type (\<lambda>v. [])
      (Expr (ustr ''formatTicks'') [Expr (ustr ''concat'') [] 8 VNone] 8 VNone)
      [ReturnType_String] [ReturnType_Number]
     = Some (Exception (ustr ''{concat} is not a {Array} expression in {formatTicks}.''))"
proof -
  let ?c = "Expr (ustr ''concat'') [] 8 VNone"
  let ?e = "Expr (ustr ''floor'') [?c] 2 VNone"
  let ?f = "Expr (ustr ''formatTicks'') [?c] 8 VNone"
  let ?x = "Exception (build_type_validator_error expr_type ReturnType_Number ?c ?e)"
  let ?y = "Exception (build_type_validator_error expr_type ReturnType_Number ?c ?f)"
  have v: "validate_arity_and_any_type expr_type (\<lambda>v. []) ?e 1 1 ReturnType_Number = Some ?x"
    by (simp add: validate_arity_and_any_type_def ReturnType_Number_def ReturnType_Object_def)
  have w: "validate_order expr_type (\<lambda>v. []) ?f [ReturnType_String] [ReturnType_Number]
             = Some ?y"
    by (simp add: validate_order_def ReturnType_Number_def ReturnType_Object_def
          ReturnType_String_def)
  have a: "\<exists>c\<in>set (children ?e). ?x = Exception (array_mismatch_message expr_type c ?e)"
    using type_mismatch_message_names_Array
            [of expr_type ReturnType_Number ?c ?e 1 1 "\<lambda>v. []" ?x] v
    by simp
  have b: "\<exists>c\<in>set (children ?f). ?y = Exception (array_mismatch_message expr_type c ?f)"
    using type_mismatch_message_names_Array
            [of expr_type ReturnType_Number ?c ?f _ _ "\<lambda>v. []" _ "[ReturnType_Number]"
                "[ReturnType_String]" ?y] w
    by simp
  from a b v w show ?thesis
    by (simp add: array_mismatch_message_def ustr_def)
qed

section \<open>Value or error\<close>









section \<open>Sequenced application\<close>

lemma apply_sequence_loop_foldl:
  "apply_sequence_loop (\<lambda>args. Inr (f (args ! 0) (args ! 1))) so_far rest
     = Inr (foldl f so_far rest)"
  by (induction rest arbitrary: so_far) simp_all

text \<open>Once the function has raised, the fold stays at the exception.\<close>

lemma foldl_raised:
  "foldl (\<lambda>acc arg. case acc of Inl ex \<Rightarrow> Inl ex | Inr s \<Rightarrow> function [s, arg]) (Inl ex) rest
     = Inl ex"
  by (induction rest) simp_all

lemma apply_sequence_loop_fold_raising:
  "apply_sequence_loop function so_far rest
     = foldl (\<lambda>acc arg. case acc of Inl ex \<Rightarrow> Inl ex | Inr s \<Rightarrow> function [s, arg])
         (Inr so_far) rest"
proof (induction rest arbitrary: so_far)
  case Nil
  show ?case by simp
next
  case (Cons arg rest)
  show ?case
  proof (cases "function [so_far, arg]")
    case (Inl ex)
    then show ?thesis by (simp add: foldl_raised)
  next
    case (Inr v)
    then show ?thesis by (simp add: Cons.IH)
  qed
qed

text \<open>
  C8. For every binary function \<open>f\<close> and every argument list \<open>[a0, a1, ..., an]\<close> of at
  least two elements that the children evaluate to, \<open>apply_sequence\<close> of \<open>f\<close> returns the
  left fold \<open>f(...f(f(a0, a1), a2)..., an)\<close>, so that a variadic sum of four arguments is
  \<open>((a + b) + c) + d\<close>.
\<close>

theorem apply_sequence_left_fold:
  "evaluate_children ev verify e state = Inr (a0 # a1 # rest, None) \<Longrightarrow>
     apply_sequence (\<lambda>args. Inr (f (args ! 0) (args ! 1))) verify ev str_exn e state
       = Inr (foldl f a0 (a1 # rest), None)"
  using apply_sequence_loop_foldl [of f "f a0 a1" rest]
  by (simp add: apply_sequence_def apply_fn_def apply_sequence_anonymous_def)

text \<open>\<open>add(1, 2, 3, 4)\<close> is \<open>((1 + 2) + 3) + 4\<close>.\<close>

theorem apply_sequence_left_fold_witness:
  "evaluate_children constant_ev None
      (Expr (ustr ''add'') [Constant (VInt 1), Constant (VInt 2), Constant (VInt 3),
                            Constant (VInt 4)] 2 VNone) ()
     = Inr ([VInt 1, VInt 2, VInt 3, VInt 4], None)
   \<and> apply_sequence (\<lambda>args. Inr (int_add (args ! 0) (args ! 1))) None constant_ev exn_text
      (Expr (ustr ''add'') [Constant (VInt 1), Constant (VInt 2), Constant (VInt 3),
                            Constant (VInt 4)] 2 VNone) ()
     = Inr (int_add (int_add (int_add (VInt 1) (VInt 2)) (VInt 3)) (VInt 4), None)
   \<and> int_add (int_add (int_add (VInt 1) (VInt 2)) (VInt 3)) (VInt 4) = VInt 10"
proof -
  let ?e = "Expr (ustr ''add'') [Constant (VInt 1), Constant (VInt 2), Constant (VInt 3),
                                Constant (VInt 4)] 2 VNone"
  have h: "evaluate_children constant_ev None ?e ()
             = Inr ([VInt 1, VInt 2, VInt 3, VInt 4], None)"
    by (simp add: evaluate_children_def constant_ev_def Constant_def)
  from apply_sequence_left_fold [OF h, of int_add exn_text] h
  show ?thesis by (simp add: int_add_def)
qed

section \<open>The data URI of a string\<close>


text \<open>
  The two encoders on known inputs: ASCII text is its own UTF-8 encoding, the code points
  of \<open>U+00E9\<close>, \<open>U+20AC\<close> and \<open>U+1F600\<close> take two, three and four bytes, a lone
  surrogate is refused, and the base64 encoder gives the test vectors of RFC 4648.
\<close>

lemma utf8_encode_ascii: "\<forall>c\<in>set s. c < 128 \<Longrightarrow> utf8_encode s = Inr s"
  by (induction s) (simp_all add: utf8_code_point_def)

lemma utf8_encode_examples:
  "utf8_encode [233] = Inr [195, 169]"
  "utf8_encode [8364] = Inr [226, 130, 172]"
  "utf8_encode [128512] = Inr [240, 159, 152, 128]"
  "utf8_encode [55296] = Inl UnicodeEncodeError"
  by (simp_all add: utf8_code_point_def)

lemma b64encode_rfc4648:
  "b64encode (ustr '''') = ustr ''''"
  "b64encode (ustr ''f'') = ustr ''Zg==''"
  "b64encode (ustr ''fo'') = ustr ''Zm8=''"
  "b64encode (ustr ''foo'') = ustr ''Zm9v''"
  "b64encode (ustr ''foob'') = ustr ''Zm9vYg==''"
  "b64encode (ustr ''fooba'') = ustr ''Zm9vYmE=''"
  "b64encode (ustr ''foobar'') = ustr ''Zm9vYmFy''"
  by (simp_all add: b64_char_def b64_alphabet_def ustr_def)





section \<open>The end of a path walk\<close>







section \<open>The frames of a foreach\<close>




text \<open>A body that raises leaves the loop with its frame still on the stack.\<close>

lemma foreach_loop_raise_keeps_frame:
  "children expression = c0 # c1 # c2 # cs \<Longrightarrow> ev c2 (body_memory sm name item) = Inl ex \<Longrightarrow>
     foreach_loop ev expression name (item # rest) sm result
       = (Inl ex, stack_append sm (SimpleObjectMemory [(name, item)]))"
  by (simp add: body_memory_def Let_def)




section \<open>Equality of null and of empty collections\<close>

text \<open>
  What \<open>is_equal\<close> returns without consulting the tolerance test or \<open>==\<close>: two nulls are
  equal, a null and anything else are not, two empty lists are equal and so are two empty
  dictionaries; and two numbers that pass the tolerance test are equal.
\<close>

lemma is_equal_null_and_empty:
  "is_equal float_close py_eq [VNone, VNone] = Inr True
   \<and> (b \<noteq> VNone \<longrightarrow> is_equal float_close py_eq [VNone, b] = Inr False
                      \<and> is_equal float_close py_eq [b, VNone] = Inr False)
   \<and> is_equal float_close py_eq [VList [], VList []] = Inr True
   \<and> is_equal float_close py_eq [VDict [], VDict []] = Inr True"
  by (simp add: is_equal_def)

lemma is_equal_close_numbers:
  "isinstance_Number a \<Longrightarrow> isinstance_Number b \<Longrightarrow> float_close a b = Inr True \<Longrightarrow>
     is_equal float_close py_eq [a, b] = Inr True"
  by (cases a; cases b) (simp_all add: is_equal_def)

end
